theory Spec2Isabelle
  imports Complex_Main
begin

section \<open>Errors\<close>

text \<open>
  The Python exceptions the modelled functions can raise.  A \<open>ValueError\<close> carries
  the message that tells the raising statement apart.
\<close>

datatype py_error =
    ValueError string
  | KeyError
  | IndexError
  | ZeroDivisionError

section \<open>The tile table (\<open>FileMatrix.data_frame\<close>)\<close>

text \<open>
  One row of the \<open>pandas\<close> table, indexed by \<open>filename\<close>.  The grid indices and
  sizes are integers; the absolute positions are numbers (\<open>float\<close> until they are
  rounded), modelled as reals.  The columns \<open>Z_end\<close>, \<open>Xs\<close>, \<open>Ys\<close>, \<open>Zs\<close>, \<open>Xs_end\<close>,
  \<open>Ys_end\<close> and \<open>Zs_end\<close> are added by the pipeline: \<open>cols\<close> lists those that
  exist, and a field of a column that does not exist holds no information.
\<close>

record tile =
  filename :: string
  X :: int
  Y :: int
  Z :: int
  nfrms :: int
  ysize :: int
  xsize :: int
  Z_end :: int
  Xs :: real
  Ys :: real
  Zs :: real
  Xs_end :: real
  Ys_end :: real
  Zs_end :: real

record data_frame =
  rows :: "tile list"
  cols :: "string list"

text \<open>\<open>Series.min()\<close> and \<open>Series.max()\<close> of a column that has at least one row.\<close>

definition list_min :: "'a::linorder list \<Rightarrow> 'a" where
  "list_min xs = fold min (tl xs) (hd xs)"

definition list_max :: "'a::linorder list \<Rightarrow> 'a" where
  "list_max xs = fold max (tl xs) (hd xs)"

text \<open>\<open>df[key] = ...\<close> creates the column when it is missing.\<close>

definition with_col :: "string \<Rightarrow> data_frame \<Rightarrow> data_frame" where
  "with_col key df = (if key \<in> set (cols df) then df else df\<lparr>cols := cols df @ [key]\<rparr>)"

definition map_rows :: "(tile \<Rightarrow> tile) \<Rightarrow> data_frame \<Rightarrow> data_frame" where
  "map_rows f df = df\<lparr>rows := map f (rows df)\<rparr>"

text \<open>Label-based row access (\<open>df.loc[name]\<close>): the first row with that index.\<close>

definition loc :: "data_frame \<Rightarrow> string \<Rightarrow> tile option" where
  "loc df name = find (\<lambda>t. filename t = name) (rows df)"

section \<open>\<open>FileMatrix\<close> (\<open>stitcher/filematrix.py\<close>)\<close>

text \<open>
  \<open>process_data_frame\<close> mutates the table in place; the model returns the table
  after the call next to the outcome, so that a raise shows the table it leaves.
  \<open>df['X'].unique().size\<close> counts the distinct values of a column.
\<close>

definition process_data_frame :: "data_frame \<Rightarrow> data_frame \<times> (py_error + unit)" where
  "process_data_frame df =
     (let mosaic_xsize = length (remdups (map X (rows df)));
          mosaic_ysize = length (remdups (map Y (rows df)));
          n_of_files = length (rows df)
      in if mosaic_xsize * mosaic_ysize \<noteq> n_of_files
         then (df, Inl (ValueError ''Mosaic is {}x{} tiles, but there are {} files!''))
         else
           let min_X = list_min (map X (rows df));
               min_Y = list_min (map Y (rows df));
               min_Z = list_min (map Z (rows df));
               df = map_rows (\<lambda>t. t\<lparr>X := X t - min_X, Y := Y t - min_Y, Z := Z t - min_Z\<rparr>) df;
               df = with_col ''Z_end'' (map_rows (\<lambda>t. t\<lparr>Z_end := Z t + nfrms t\<rparr>) df)
           in if ''Xs'' \<in> set (cols df) \<and> ''Ys'' \<in> set (cols df) \<and> ''Zs'' \<in> set (cols df)
              then
                let min_Xs = list_min (map Xs (rows df));
                    df = map_rows (\<lambda>t. t\<lparr>Xs := Xs t - min_Xs\<rparr>) df;
                    min_Ys = list_min (map Ys (rows df));
                    df = map_rows (\<lambda>t. t\<lparr>Ys := Ys t - min_Ys\<rparr>) df;
                    min_Zs = list_min (map Zs (rows df));
                    df = map_rows (\<lambda>t. t\<lparr>Zs := Zs t - min_Zs\<rparr>) df;
                    df = with_col ''Xs_end'' (map_rows (\<lambda>t. t\<lparr>Xs_end := Xs t + of_int (xsize t)\<rparr>) df);
                    df = with_col ''Ys_end'' (map_rows (\<lambda>t. t\<lparr>Ys_end := Ys t + of_int (ysize t)\<rparr>) df);
                    df = with_col ''Zs_end'' (map_rows (\<lambda>t. t\<lparr>Zs_end := Zs t + of_int (nfrms t)\<rparr>) df)
                in (df, Inr ())
              else (df, Inr ()))"

text \<open>
  \<open>full_width\<close>, \<open>full_height\<close>, \<open>full_thickness\<close>: the maximum of an end-position
  column.  A missing column raises \<open>KeyError\<close>; the maximum of a column without rows
  is \<open>NaN\<close>, here \<open>None\<close>.
\<close>

definition col_max :: "string \<Rightarrow> (tile \<Rightarrow> real) \<Rightarrow> data_frame \<Rightarrow> py_error + real option" where
  "col_max key f df =
     (if key \<notin> set (cols df) then Inl KeyError
      else if rows df = [] then Inr None
      else Inr (Some (list_max (map f (rows df)))))"

definition full_width :: "data_frame \<Rightarrow> py_error + real option" where
  "full_width df = col_max ''Xs_end'' Xs_end df"

definition full_height :: "data_frame \<Rightarrow> py_error + real option" where
  "full_height df = col_max ''Ys_end'' Ys_end df"

definition full_thickness_of :: "data_frame \<Rightarrow> py_error + real option" where
  "full_thickness_of df = col_max ''Zs_end'' Zs_end df"

section \<open>Graphs (\<open>networkx.Graph\<close>)\<close>

text \<open>
  The sources build \<open>networkx\<close> graphs over file names and call three library
  functions on them: \<open>connected_component_subgraphs\<close>, \<open>minimum_spanning_tree\<close>
  and \<open>dfs_edges\<close>.  The library is not part of the repository; it is modelled here
  by what it documents.  An undirected graph is the list of its nodes and the list
  of its edges, both in insertion order, an edge carrying its attributes.  Adding
  a node or an edge that is there already does not add it again; adding an edge
  between two joined nodes replaces the attributes.
\<close>

record 'd graph =
  g_nodes :: "string list"
  g_edges :: "(string \<times> string \<times> 'd) list"

definition empty_graph :: "'d graph" where
  "empty_graph = \<lparr>g_nodes = [], g_edges = []\<rparr>"

definition add_node :: "string \<Rightarrow> 'd graph \<Rightarrow> 'd graph" where
  "add_node v G = (if v \<in> set (g_nodes G) then G else G\<lparr>g_nodes := g_nodes G @ [v]\<rparr>)"

definition same_edge :: "string \<Rightarrow> string \<Rightarrow> string \<times> string \<times> 'd \<Rightarrow> bool" where
  "same_edge u v e \<longleftrightarrow>
     (fst e = u \<and> fst (snd e) = v) \<or> (fst e = v \<and> fst (snd e) = u)"

definition add_edge :: "string \<Rightarrow> string \<Rightarrow> 'd \<Rightarrow> 'd graph \<Rightarrow> 'd graph" where
  "add_edge u v d G =
     (let G = add_node v (add_node u G)
      in if list_ex (same_edge u v) (g_edges G)
         then G\<lparr>g_edges := map (\<lambda>e. if same_edge u v e then (fst e, fst (snd e), d) else e)
                                (g_edges G)\<rparr>
         else G\<lparr>g_edges := g_edges G @ [(u, v, d)]\<rparr>)"

text \<open>The neighbours of a node with the attributes of the joining edges (\<open>G[v]\<close>).\<close>

definition adj_data :: "'d graph \<Rightarrow> string \<Rightarrow> (string \<times> 'd) list" where
  "adj_data G v =
     concat (map (\<lambda>e. if fst e = v then [(fst (snd e), snd (snd e))]
                       else if fst (snd e) = v then [(fst e, snd (snd e))]
                       else []) (g_edges G))"

definition adj :: "'d graph \<Rightarrow> string \<Rightarrow> string list" where
  "adj G v = map fst (adj_data G v)"

text \<open>\<open>G.get_edge_data(u, v)\<close>: the attributes of the edge between two nodes.\<close>

definition get_edge_data :: "'d graph \<Rightarrow> string \<Rightarrow> string \<Rightarrow> 'd option" where
  "get_edge_data G u v = map_option (\<lambda>e. snd (snd e)) (find (same_edge u v) (g_edges G))"

text \<open>
  \<open>G.edges(data=True)\<close>: node by node in insertion order, the edges to the
  neighbours that have not been listed as a node yet.
\<close>

fun edges_from :: "'d graph \<Rightarrow> string list \<Rightarrow> string list \<Rightarrow> (string \<times> string \<times> 'd) list" where
  "edges_from G seen [] = []"
| "edges_from G seen (n # ns) =
     map (\<lambda>(nbr, d). (n, nbr, d)) (filter (\<lambda>(nbr, d). nbr \<notin> set seen) (adj_data G n))
     @ edges_from G (n # seen) ns"

definition edges_iter :: "'d graph \<Rightarrow> (string \<times> string \<times> 'd) list" where
  "edges_iter G = edges_from G [] (g_nodes G)"

subsection \<open>Disjoint sets\<close>

text \<open>
  The disjoint-set forest of \<open>networkx.utils.UnionFind\<close>, as the function that
  sends every object to the representative of its set: at first every object is
  its own; \<open>union\<close> moves the set of \<open>v\<close> to the representative of \<open>u\<close>.
\<close>

definition uf_union :: "(string \<Rightarrow> string) \<Rightarrow> string \<Rightarrow> string \<Rightarrow> (string \<Rightarrow> string)" where
  "uf_union f u v = (\<lambda>x. if f x = f v then f u else f x)"

primrec uf_fold :: "(string \<times> string \<times> 'd) list \<Rightarrow> (string \<Rightarrow> string) \<Rightarrow> (string \<Rightarrow> string)" where
  "uf_fold [] f = f"
| "uf_fold (e # es) f = uf_fold es (uf_union f (fst e) (fst (snd e)))"

text \<open>The equivalence a representative function stands for.\<close>

definition uf_rel :: "(string \<Rightarrow> string) \<Rightarrow> (string \<times> string) set" where
  "uf_rel f = {(x, y). f x = f y}"

subsection \<open>Connected components\<close>

text \<open>
  \<open>connected_components\<close>: the node sets of the components, in the order of their
  first nodes.  Two nodes are put in one component exactly when a path of edges
  joins them (lemma \<open>same_component_iff\<close> below); the library finds the same sets by
  a breadth-first search from every node not yet reached.
\<close>

definition connected_components :: "'d graph \<Rightarrow> string list list" where
  "connected_components G =
     (let f = uf_fold (g_edges G) (\<lambda>x. x)
      in map (\<lambda>l. filter (\<lambda>v. f v = l) (g_nodes G)) (remdups (map f (g_nodes G))))"

text \<open>The edge relation of a graph, in both directions, and what connected means.\<close>

definition edge_rel :: "(string \<times> string \<times> 'd) list \<Rightarrow> (string \<times> string) set" where
  "edge_rel es = {(u, v). \<exists>d. (u, v, d) \<in> set es \<or> (v, u, d) \<in> set es}"

definition connected_graph :: "'d graph \<Rightarrow> bool" where
  "connected_graph G \<longleftrightarrow>
     (\<forall>u\<in>set (g_nodes G). \<forall>v\<in>set (g_nodes G). (u, v) \<in> (edge_rel (g_edges G))\<^sup>*)"

subsection \<open>Minimum spanning tree\<close>

text \<open>
  \<open>minimum_spanning_tree\<close> is Kruskal's algorithm: the edges sorted by weight (the
  sort is stable), an edge kept when its ends lie in different sets, which are
  then united.  The tree has the nodes of the graph and the kept edges; for a
  graph that is not connected the result is a spanning forest, and nothing is
  raised.
\<close>

fun kruskal_loop :: "(string \<Rightarrow> string) \<Rightarrow> (string \<times> string \<times> 'd) list
                     \<Rightarrow> (string \<times> string \<times> 'd) list" where
  "kruskal_loop f [] = []"
| "kruskal_loop f (e # es) =
     (if f (fst e) \<noteq> f (fst (snd e))
      then e # kruskal_loop (uf_union f (fst e) (fst (snd e))) es
      else kruskal_loop f es)"

definition minimum_spanning_edges :: "('d \<Rightarrow> real) \<Rightarrow> 'd graph \<Rightarrow> (string \<times> string \<times> 'd) list" where
  "minimum_spanning_edges weight G =
     kruskal_loop (\<lambda>x. x) (sort_key (\<lambda>e. weight (snd (snd e))) (edges_iter G))"

definition nx_minimum_spanning_tree :: "('d \<Rightarrow> real) \<Rightarrow> 'd graph \<Rightarrow> 'd graph" where
  "nx_minimum_spanning_tree weight G =
     \<lparr>g_nodes = g_nodes G, g_edges = minimum_spanning_edges weight G\<rparr>"

subsection \<open>Depth-first search\<close>

text \<open>
  \<open>dfs_edges(G, source)\<close>: the edges \<open>(parent, child)\<close> of a depth-first search in
  the order they are followed.  The stack holds the nodes on the current path,
  each with the neighbours still to look at.  The neighbours of a node are nodes
  of the graph.  A source that is not a node raises \<open>KeyError\<close>.
\<close>

function dfs_loop :: "'d graph \<Rightarrow> string list \<Rightarrow> (string \<times> string list) list
                      \<Rightarrow> (string \<times> string) list" where
  "dfs_loop G visited [] = []"
| "dfs_loop G visited ((parent, []) # stack) = dfs_loop G visited stack"
| "dfs_loop G visited ((parent, child # rest) # stack) =
     (if child \<in> set visited \<or> child \<notin> set (g_nodes G)
      then dfs_loop G visited ((parent, rest) # stack)
      else (parent, child)
             # dfs_loop G (child # visited) ((child, adj G child) # (parent, rest) # stack))"
  by pat_completeness auto
termination
proof (relation "measures [\<lambda>(G, visited, stack). card (set (g_nodes G) - set visited),
                           \<lambda>(G, visited, stack). sum_list (map (\<lambda>(p, cs). Suc (length cs)) stack)]")
  show "wf (measures [\<lambda>(G, visited, stack). card (set (g_nodes G) - set visited),
                      \<lambda>(G, visited, stack). sum_list (map (\<lambda>(p, cs). Suc (length cs)) stack)])"
    by simp
next
  fix G :: "'d graph" and visited :: "string list" and parent :: string
    and stack :: "(string \<times> string list) list"
  show "((G, visited, stack), (G, visited, (parent, []) # stack))
          \<in> measures [\<lambda>(G, visited, stack). card (set (g_nodes G) - set visited),
                       \<lambda>(G, visited, stack). sum_list (map (\<lambda>(p, cs). Suc (length cs)) stack)]"
    by simp
next
  fix G :: "'d graph" and visited :: "string list" and parent child :: string
    and rest :: "string list" and stack :: "(string \<times> string list) list"
  show "((G, visited, (parent, rest) # stack), (G, visited, (parent, child # rest) # stack))
          \<in> measures [\<lambda>(G, visited, stack). card (set (g_nodes G) - set visited),
                       \<lambda>(G, visited, stack). sum_list (map (\<lambda>(p, cs). Suc (length cs)) stack)]"
    by simp
next
  fix G :: "'d graph" and visited :: "string list" and parent child :: string
    and rest :: "string list" and stack :: "(string \<times> string list) list"
  assume "\<not> (child \<in> set visited \<or> child \<notin> set (g_nodes G))"
  then have "set (g_nodes G) - set (child # visited) \<subset> set (g_nodes G) - set visited"
    by auto
  then have "card (set (g_nodes G) - set (child # visited)) < card (set (g_nodes G) - set visited)"
    by (intro psubset_card_mono) simp_all
  then show "((G, child # visited, (child, adj G child) # (parent, rest) # stack),
              (G, visited, (parent, child # rest) # stack))
          \<in> measures [\<lambda>(G, visited, stack). card (set (g_nodes G) - set visited),
                       \<lambda>(G, visited, stack). sum_list (map (\<lambda>(p, cs). Suc (length cs)) stack)]"
    by simp
qed

definition dfs_edges :: "'d graph \<Rightarrow> string \<Rightarrow> py_error + (string \<times> string) list" where
  "dfs_edges G source =
     (if source \<notin> set (g_nodes G) then Inl KeyError
      else Inr (dfs_loop G [source] [(source, adj G source)]))"

section \<open>Slices (\<open>FileMatrix.slices\<close>, \<open>stitcher/filematrix.py\<close>)\<close>

text \<open>
  \<^verbatim>\<open>
    for index, row in self.data_frame.iterrows():
        view = self.data_frame[
            (self.data_frame['Z'] <= row['Z'])
            & (self.data_frame['Z_end'] >= row['Z_end'])]
        pairs = zip(view.index.values[::1], view.index.values[1::1])
        G.add_edges_from(pairs)
        G.add_edge((view.index.values[0]), view.index.values[-1])
  \<close>
  The view of a row holds the tiles whose Z interval contains the interval of the
  row; the row itself is one of them.
\<close>

definition slice_view :: "data_frame \<Rightarrow> tile \<Rightarrow> tile list" where
  "slice_view df row = filter (\<lambda>t. Z t \<le> Z row \<and> Z_end t \<ge> Z_end row) (rows df)"

definition link_view :: "string list \<Rightarrow> unit graph \<Rightarrow> py_error + unit graph" where
  "link_view names G =
     (let G = fold (\<lambda>p. add_edge (fst p) (snd p) ()) (zip names (tl names)) G
      in case names of
           [] \<Rightarrow> Inl IndexError
         | first # _ \<Rightarrow> Inr (add_edge first (last names) () G))"

fun slices_loop :: "data_frame \<Rightarrow> tile list \<Rightarrow> unit graph \<Rightarrow> py_error + unit graph" where
  "slices_loop df [] G = Inr G"
| "slices_loop df (row # rest) G =
     (case link_view (map filename (slice_view df row)) G of
        Inl e \<Rightarrow> Inl e
      | Inr G' \<Rightarrow> slices_loop df rest G')"

text \<open>
  \<open>slices\<close> returns the connected components of the graph; the model returns
  their node sets.  The column \<open>Z_end\<close> is there once \<open>process_data_frame\<close> has
  run; without it the lookup raises \<open>KeyError\<close>.
\<close>

definition slices :: "data_frame \<Rightarrow> py_error + string list list" where
  "slices df =
     (let G = fold (\<lambda>row. add_node (filename row)) (rows df) empty_graph
      in if ''Z_end'' \<notin> set (cols df) then Inl KeyError
         else case slices_loop df (rows df) G of
                Inl e \<Rightarrow> Inl e
              | Inr G \<Rightarrow> Inr (connected_components G))"

section \<open>The decision vector (\<open>stitcher/global_optimization.py\<close>)\<close>

text \<open>
  \<open>numpy\<close> arrays of shape \<open>[ysize, xsize, d]\<close> (below \<open>(n_rows, n_cols, d)\<close>) are
  lists of \<open>ysize\<close> rows, each a list of \<open>xsize\<close> vectors of \<open>d\<close> numbers (\<open>d = 3\<close> in the source: \<open>pz\<close>, \<open>py\<close>, \<open>px\<close>).
  The numbers are the elements of any commutative group under addition (integers,
  rationals, reals): sums and differences are exact, the rounding of \<open>float64\<close> is
  not part of the model.

  \<open>x.reshape(shape)\<close> cuts the flat vector in row-major order and raises
  \<open>ValueError\<close> when the sizes do not agree.
\<close>

primrec chunks_of :: "nat \<Rightarrow> nat \<Rightarrow> 'a list \<Rightarrow> 'a list list" where
  "chunks_of 0 k xs = []"
| "chunks_of (Suc n) k xs = take k xs # chunks_of n k (drop k xs)"


text \<open>
  \<open>np.cumsum(a, axis=0)\<close>: the running sum of the entries along the first axis,
  the entries added elementwise by \<open>add\<close>.
\<close>

primrec cumsum_from :: "('b \<Rightarrow> 'b \<Rightarrow> 'b) \<Rightarrow> 'b \<Rightarrow> 'b list \<Rightarrow> 'b list" where
  "cumsum_from add acc [] = []"
| "cumsum_from add acc (x # xs) = add acc x # cumsum_from add (add acc x) xs"

definition cumsum :: "('b \<Rightarrow> 'b \<Rightarrow> 'b) \<Rightarrow> 'b list \<Rightarrow> 'b list" where
  "cumsum add xs = (case xs of [] \<Rightarrow> [] | x # rest \<Rightarrow> x # cumsum_from add x rest)"











section \<open>Blending two overlapping regions (\<open>FuseRunner._fuse\<close>, \<open>stitcher/fuse_runner.py\<close>)\<close>

text \<open>
  A \<open>numpy\<close> array is its shape and its elements in row-major order; it is well
  formed when it has as many elements as the shape says.  The elements are reals:
  products and sums are exact, the rounding of \<open>float32\<close> and the cast to the
  destination's element type are not part of the model.
\<close>

record ndarray =
  shape :: "nat list"
  data :: "real list"


text \<open>
  \<open>np.linspace(start, stop, num)\<close>: \<open>num\<close> evenly spaced numbers, the first \<open>start\<close>
  and (for \<open>num > 1\<close>) the last \<open>stop\<close>; a single number is \<open>start\<close>.
\<close>

definition linspace :: "real \<Rightarrow> real \<Rightarrow> nat \<Rightarrow> real list" where
  "linspace start stop num =
     (if num = 1 then [start]
      else map (\<lambda>i. start + of_nat i * ((stop - start) / of_nat (num - 1))) [0..<num])"

text \<open>
  Lines 109--111: \<open>rad = np.linspace(0.0, np.pi, output_height)\<close> and
  \<open>alpha = (np.cos(rad) + 1) / 2\<close>.
\<close>

definition blend_alpha :: "nat \<Rightarrow> real list" where
  "blend_alpha output_height = map (\<lambda>r. (cos r + 1) / 2) (linspace 0 pi output_height)"

text \<open>
  Lines 112--114: \<open>np.tile(alpha, [output_width])\<close> repeats the ramp, \<open>np.reshape\<close>
  cuts it into \<open>output_width\<close> rows of \<open>output_height\<close> numbers, and \<open>np.transpose\<close>
  turns these into \<open>output_height\<close> rows of \<open>output_width\<close> numbers.
\<close>

definition transpose2 :: "nat \<Rightarrow> 'a list list \<Rightarrow> 'a list list" where
  "transpose2 n_cols_in rs = map (\<lambda>i. map (\<lambda>r. r ! i) rs) [0..<n_cols_in]"

definition alpha_matrix :: "nat \<Rightarrow> nat \<Rightarrow> real list list" where
  "alpha_matrix output_height output_width =
     (let alpha = blend_alpha output_height;
          alpha = concat (replicate output_width alpha);
          alpha = chunks_of output_width output_height alpha
      in transpose2 output_height alpha)"

text \<open>
  \<^verbatim>\<open>
    if a_roi.shape != b_roi.shape or a_roi.shape != dest.shape:
        raise ValueError('ROI shapes must be equal. ...')
    output_height = a_roi.shape[1]
    output_width = a_roi.shape[2]
    ...
    dest[:] = a_roi * alpha + b_roi * (1 - alpha)
  \<close>
  The model returns the destination after the call next to the outcome.
  \<open>shape[1]\<close> and \<open>shape[2]\<close> raise \<open>IndexError\<close> for an array of fewer than three
  dimensions.  The weights have shape \<open>[output_height, output_width]\<close> and are
  broadcast against the last two dimensions \<open>[R, C]\<close> of the regions: \<open>numpy\<close> raises
  its own \<open>ValueError\<close> when a pair of dimensions differs and neither is 1, and
  when the broadcast result does not fit the destination; for regions of three
  dimensions \<open>[R, C]\<close> is \<open>[output_height, output_width]\<close> and neither happens.
  The element at flat index \<open>k\<close> lies in row \<open>(k div C) mod R\<close> and column \<open>k mod C\<close>
  of its plane.
\<close>

definition fuse :: "ndarray \<Rightarrow> ndarray \<Rightarrow> ndarray \<Rightarrow> ndarray \<times> (py_error + unit)" where
  "fuse a_roi b_roi dest =
     (if shape a_roi \<noteq> shape b_roi \<or> shape a_roi \<noteq> shape dest
      then (dest, Inl (ValueError ''ROI shapes must be equal''))
      else if length (shape a_roi) < 3 then (dest, Inl IndexError)
      else
        let output_height = shape a_roi ! 1;
            output_width = shape a_roi ! 2;
            alpha = alpha_matrix output_height output_width;
            R = shape a_roi ! (length (shape a_roi) - 2);
            C = shape a_roi ! (length (shape a_roi) - 1)
        in if \<not> ((output_height = R \<or> output_height = 1 \<or> R = 1)
                  \<and> (output_width = C \<or> output_width = 1 \<or> C = 1))
           then (dest, Inl (ValueError ''operands could not be broadcast together''))
           else if \<not> ((output_height = R \<or> output_height = 1)
                       \<and> (output_width = C \<or> output_width = 1))
           then (dest, Inl (ValueError ''could not broadcast input array''))
           else
             (dest\<lparr>data :=
                 map (\<lambda>k. let w = alpha ! (if output_height = 1 then 0 else (k div C) mod R)
                                       ! (if output_width = 1 then 0 else k mod C)
                          in data a_roi ! k * w + data b_roi ! k * (1 - w))
                     [0..<length (data dest)]\<rparr>,
              Inr ()))"

section \<open>Streaming fusion: chunk partitioning (\<open>stitcher/fuser/fuse_runner.py\<close>)\<close>

text \<open>
  \<open>FuseRunner\<close> keeps the current Z window in \<open>zmin\<close>/\<open>zmax\<close>; \<open>full_thickness\<close>
  is \<open>self.fm.full_thickness\<close>.  The property \<open>output_shape\<close> recomputes the
  thickness from these on every access:
  \<^verbatim>\<open>
    thickness = self.fm.full_thickness
    if self.zmax is not None:
        thickness -= (thickness - self.zmax)
    thickness -= self.zmin
  \<close>
\<close>

record runner =
  zmin :: int
  zmax :: "int option"
  full_thickness :: int

definition output_thickness :: "runner \<Rightarrow> int" where
  "output_thickness r =
     (let thickness = full_thickness r;
          thickness = (case zmax r of None \<Rightarrow> thickness
                                    | Some zm \<Rightarrow> thickness - (thickness - zm))
      in thickness - zmin r)"

text \<open>
  Lines 89--94 of \<open>run\<close>: \<open>n_loops = T // n\<close>, \<open>n\<close> repeated \<open>n_loops\<close> times, then
  the remainder \<open>T % n\<close> when it is not zero.  Python's \<open>//\<close> and \<open>%\<close> on integers
  are floor division and the matching remainder, as \<open>div\<close> and \<open>mod\<close> on \<open>int\<close>;
  they raise \<open>ZeroDivisionError\<close> for \<open>n = 0\<close>.  \<open>range(0, n_loops)\<close> is empty for a
  negative \<open>n_loops\<close>, as \<open>replicate (nat n_loops)\<close> is.
\<close>

definition partial_thickness :: "int \<Rightarrow> int \<Rightarrow> py_error + int list" where
  "partial_thickness T n_frames_in_ram =
     (if n_frames_in_ram = 0 then Inl ZeroDivisionError
      else
        let n_loops = T div n_frames_in_ram;
            pt = replicate (nat n_loops) n_frames_in_ram;
            remainder = T mod n_frames_in_ram
        in Inr (if remainder \<noteq> 0 then pt @ [remainder] else pt))"

text \<open>
  The rows of the tile table the loop reads: the index (file name), the absolute
  Z position \<open>Zs\<close> and the frame count \<open>nfrms\<close>.
\<close>

record tile_z =
  tz_name :: string
  tz_Zs :: int
  tz_nfrms :: int

text \<open>
  Lines 110--138: the frame range \<open>[z_from, z_to)\<close> of one tile that falls into the
  current window, or nothing when the tile is skipped (\<open>continue\<close>), and the Z
  coordinate of \<open>top_left\<close>, the chunk-relative frame the range is written at.
\<close>

definition tile_range :: "runner \<Rightarrow> tile_z \<Rightarrow> (int \<times> int \<times> int) option" where
  "tile_range r row =
     (let z_to = (case zmax r of None \<Rightarrow> tz_nfrms row | Some zm \<Rightarrow> zm - tz_Zs row);
          z_to = (if z_to > tz_nfrms row then tz_nfrms row else z_to)
      in if z_to \<le> 0 then None
         else
           let z_from = zmin r - tz_Zs row;
               z_from = (if z_from < 0 then 0 else z_from)
           in if z_from \<ge> z_to then None
              else Some (z_from, z_to, tz_Zs row + z_from - zmin r))"

text \<open>
  What one pass of the loop body appends to the output file: the buffer \<open>fused\<close> has
  \<open>output_shape[0]\<close> frames, and frame \<open>k\<close> of the buffer is the output frame
  \<open>zmin + k\<close> (a tile frame at absolute position \<open>Zs + z_from\<close> is written at
  \<open>Zs + z_from - zmin\<close>).  A page is recorded as the absolute Z index it holds
  together with the tile reads that fed its chunk.
\<close>

record chunk =
  c_zmin :: int
  c_zmax :: int
  c_pages :: "int list"
  c_reads :: "(string \<times> int \<times> int \<times> int) list"

definition fuse_chunk :: "runner \<Rightarrow> tile_z list \<Rightarrow> chunk" where
  "fuse_chunk r tiles =
     \<lparr> c_zmin = zmin r,
       c_zmax = the (zmax r),
       c_pages = map (\<lambda>k. zmin r + int k) [0..<nat (output_thickness r)],
       c_reads = concat (map (\<lambda>row. case tile_range r row of
                                         None \<Rightarrow> []
                                       | Some (f, t, z) \<Rightarrow> [(tz_name row, f, t, z)]) tiles) \<rparr>"

text \<open>
  The loop over \<open>partial_thickness\<close> (lines 101--164).  \<open>np.zeros\<close> raises
  \<open>ValueError\<close> for a negative dimension.
\<close>

fun chunk_loop :: "runner \<Rightarrow> tile_z list \<Rightarrow> int list \<Rightarrow> chunk list
                   \<Rightarrow> py_error + (runner \<times> chunk list)" where
  "chunk_loop r tiles [] out = Inr (r, out)"
| "chunk_loop r tiles (thickness # rest) out =
     (let r1 = r\<lparr>zmax := Some (zmin r + thickness)\<rparr>
      in if output_thickness r1 < 0 then Inl (ValueError ''negative dimensions are not allowed'')
         else
           let c = fuse_chunk r1 tiles;
               r2 = r1\<lparr>zmin := zmin r1 + thickness\<rparr>
           in chunk_loop r2 tiles rest (out @ [c]))"

text \<open>
  \<open>run\<close>, with the number of frames that fit in memory as a parameter (the source
  computes it as \<open>int(ram / xy_size / 1.5)\<close> from the machine's memory).  The output
  file is removed first, so the pages start from the empty list.
\<close>

definition run :: "runner \<Rightarrow> tile_z list \<Rightarrow> int \<Rightarrow> py_error + (runner \<times> chunk list)" where
  "run r tiles n_frames_in_ram =
     (case partial_thickness (output_thickness r) n_frames_in_ram of
        Inl e \<Rightarrow> Inl e
      | Inr pt \<Rightarrow> chunk_loop r tiles pt [])"

definition pages_written :: "chunk list \<Rightarrow> int list" where
  "pages_written cs = concat (map c_pages cs)"

section \<open>Concrete tables used as instances\<close>

definition mk_tile :: "string \<Rightarrow> int \<Rightarrow> int \<Rightarrow> int \<Rightarrow> tile" where
  "mk_tile name x y z =
     \<lparr> filename = name, X = x, Y = y, Z = z, nfrms = 5, ysize = 100, xsize = 100,
       Z_end = 0, Xs = 0, Ys = 0, Zs = 0, Xs_end = 0, Ys_end = 0, Zs_end = 0 \<rparr>"

definition three_of_four :: data_frame where
  "three_of_four =
     \<lparr> rows = [mk_tile ''a'' 0 0 0, mk_tile ''b'' 1 0 0, mk_tile ''c'' 0 1 0], cols = [] \<rparr>"

definition two_by_two :: data_frame where
  "two_by_two =
     \<lparr> rows = [mk_tile ''a'' 0 0 0, mk_tile ''b'' 1 0 0, mk_tile ''c'' 0 1 0, mk_tile ''d'' 1 1 0],
       cols = [] \<rparr>"

text \<open>Regions of one frame, three rows and one column, and one of two rows.\<close>

definition roi_a :: ndarray where "roi_a = \<lparr>shape = [1, 3, 1], data = [10, 20, 30]\<rparr>"

definition roi_b :: ndarray where "roi_b = \<lparr>shape = [1, 3, 1], data = [1, 2, 3]\<rparr>"

definition roi_dest :: ndarray where "roi_dest = \<lparr>shape = [1, 3, 1], data = [0, 0, 0]\<rparr>"

definition roi_short :: ndarray where "roi_short = \<lparr>shape = [1, 2, 1], data = [1, 2]\<rparr>"

section \<open>The decision vector: proofs\<close>


lemma length_chunks_of [simp]: "length (chunks_of n k xs) = n"
  by (induction n arbitrary: xs) simp_all





lemma length_cumsum_from [simp]: "length (cumsum_from add acc xs) = length xs"
  by (induction xs arbitrary: acc) simp_all

lemma length_cumsum [simp]: "length (cumsum add xs) = length xs"
  by (cases xs) (simp_all add: cumsum_def)










section \<open>The incomplete-mosaic check: proofs\<close>

text \<open>
  Claim C3.  \<open>process_data_frame\<close> raises the incomplete-mosaic \<open>ValueError\<close> exactly
  when the number of rows differs from the number of distinct \<open>X\<close> values times the
  number of distinct \<open>Y\<close> values; it raises before the table is touched (the table it
  leaves is the table it was given), and it raises nothing when the product is the
  number of rows.
\<close>

theorem incomplete_mosaic:
  "(card (X ` set (rows df)) * card (Y ` set (rows df)) \<noteq> length (rows df)
      \<longrightarrow> process_data_frame df
            = (df, Inl (ValueError ''Mosaic is {}x{} tiles, but there are {} files!'')))
   \<and> (card (X ` set (rows df)) * card (Y ` set (rows df)) = length (rows df)
      \<longrightarrow> snd (process_data_frame df) = Inr ())"
proof -
  have x: "length (remdups (map X (rows df))) = card (X ` set (rows df))"
    by (simp add: length_remdups_card_conv)
  have y: "length (remdups (map Y (rows df))) = card (Y ` set (rows df))"
    by (simp add: length_remdups_card_conv)
  show ?thesis
    unfolding process_data_frame_def x y by (simp add: Let_def)
qed

text \<open>Three tiles on a 2 x 2 grid are refused; the four tiles of the grid are accepted.\<close>

theorem incomplete_mosaic_witness:
  "process_data_frame three_of_four
     = (three_of_four, Inl (ValueError ''Mosaic is {}x{} tiles, but there are {} files!''))
   \<and> snd (process_data_frame two_by_two) = Inr ()"
proof -
  have a: "card (X ` set (rows three_of_four)) * card (Y ` set (rows three_of_four))
            \<noteq> length (rows three_of_four)"
    by (simp add: three_of_four_def mk_tile_def card_insert_if)
  have b: "card (X ` set (rows two_by_two)) * card (Y ` set (rows two_by_two))
            = length (rows two_by_two)"
    by (simp add: two_by_two_def mk_tile_def card_insert_if)
  show ?thesis
    using incomplete_mosaic[of three_of_four] incomplete_mosaic[of two_by_two] a b by blast
qed

section \<open>Blending: proofs\<close>

lemma length_linspace [simp]: "length (linspace a b n) = n"
  by (simp add: linspace_def)

lemma length_blend_alpha [simp]: "length (blend_alpha n) = n"
  by (simp add: blend_alpha_def)



















text \<open>
  Claim C9.  \<open>_fuse\<close> raises the shape-mismatch \<open>ValueError\<close> of its guard exactly when
  the three shapes are not all equal, and whenever it raises (this error or any
  other) the destination is the one it was given.
\<close>

theorem fuse_shape_guard:
  "(snd (fuse a_roi b_roi dest) = Inl (ValueError ''ROI shapes must be equal'')
      \<longleftrightarrow> \<not> (shape a_roi = shape b_roi \<and> shape a_roi = shape dest))
   \<and> (\<forall>e. snd (fuse a_roi b_roi dest) = Inl e \<longrightarrow> fst (fuse a_roi b_roi dest) = dest)"
  by (simp add: fuse_def Let_def)




text \<open>A region of two rows against regions of three rows is refused.\<close>

theorem fuse_shape_guard_witness:
  "snd (fuse roi_a roi_short roi_dest) = Inl (ValueError ''ROI shapes must be equal'')
   \<and> fst (fuse roi_a roi_short roi_dest) = roi_dest
   \<and> snd (fuse roi_a roi_b roi_dest) \<noteq> Inl (ValueError ''ROI shapes must be equal'')"
proof -
  have ne: "\<not> (shape roi_a = shape roi_short \<and> shape roi_a = shape roi_dest)"
    by (simp add: roi_a_def roi_short_def)
  have eq: "shape roi_a = shape roi_b \<and> shape roi_a = shape roi_dest"
    by (simp add: roi_a_def roi_b_def roi_dest_def)
  have g: "snd (fuse roi_a roi_short roi_dest) = Inl (ValueError ''ROI shapes must be equal'')"
    using fuse_shape_guard[of roi_a roi_short roi_dest] ne by blast
  have u: "fst (fuse roi_a roi_short roi_dest) = roi_dest"
    using fuse_shape_guard[of roi_a roi_short roi_dest] g by blast
  have k: "snd (fuse roi_a roi_b roi_dest) \<noteq> Inl (ValueError ''ROI shapes must be equal'')"
    using fuse_shape_guard[of roi_a roi_b roi_dest] eq by blast
  show ?thesis using g u k by blast
qed


section \<open>Chunk partitioning: proofs\<close>

lemma output_thickness_window:
  "output_thickness (r\<lparr>zmax := Some (zmin r + t)\<rparr>) = t"
  by (simp add: output_thickness_def)

lemma upt_add_split_map:
  "0 \<le> a \<Longrightarrow> 0 \<le> b \<Longrightarrow>
   map (\<lambda>k. z + int k) [0..<nat (a + b)]
     = map (\<lambda>k. z + int k) [0..<nat a] @ map (\<lambda>k. (z + a) + int k) [0..<nat b]"
proof -
  assume a: "0 \<le> a" and b: "0 \<le> b"
  have n: "nat (a + b) = nat a + nat b" using a b by (simp add: nat_add_distrib)
  have "[0..<nat a + nat b] = [0..<nat a] @ [nat a..<nat a + nat b]"
    by (rule upt_add_eq_append) simp
  moreover have "[nat a..<nat a + nat b] = map (\<lambda>k. k + nat a) [0..<nat b]"
    by (simp add: map_add_upt add.commute)
  ultimately have "[0..<nat a + nat b] = [0..<nat a] @ map (\<lambda>k. k + nat a) [0..<nat b]"
    by simp
  then show ?thesis using a by (simp add: n o_def)
qed

lemma chunk_loop_pages:
  "\<forall>t\<in>set pt. 0 \<le> t \<Longrightarrow>
   \<exists>r' cs. chunk_loop r tiles pt out = Inr (r', out @ cs)
      \<and> zmin r' = zmin r + sum_list pt
      \<and> full_thickness r' = full_thickness r
      \<and> map (\<lambda>c. c_zmax c - c_zmin c) cs = pt
      \<and> map (\<lambda>c. int (length (c_pages c))) cs = pt
      \<and> pages_written cs = map (\<lambda>k. zmin r + int k) [0..<nat (sum_list pt)]"
proof (induction pt arbitrary: r out)
  case Nil
  then show ?case by (simp add: pages_written_def)
next
  case (Cons t pt)
  let ?r1 = "r\<lparr>zmax := Some (zmin r + t)\<rparr>"
  let ?r2 = "?r1\<lparr>zmin := zmin ?r1 + t\<rparr>"
  let ?c = "fuse_chunk ?r1 tiles"
  have t0: "0 \<le> t" and rest: "\<forall>t\<in>set pt. 0 \<le> t" using Cons.prems by auto
  have s0: "0 \<le> sum_list pt" using rest by (simp add: sum_list_nonneg)
  obtain r' cs where
    loop: "chunk_loop ?r2 tiles pt (out @ [?c]) = Inr (r', (out @ [?c]) @ cs)"
    and zr: "zmin r' = zmin ?r2 + sum_list pt"
    and fr: "full_thickness r' = full_thickness ?r2"
    and th: "map (\<lambda>c. c_zmax c - c_zmin c) cs = pt"
    and ln: "map (\<lambda>c. int (length (c_pages c))) cs = pt"
    and pg: "pages_written cs = map (\<lambda>k. zmin ?r2 + int k) [0..<nat (sum_list pt)]"
    using Cons.IH[OF rest, of ?r2 "out @ [?c]"] by blast
  have step: "chunk_loop r tiles (t # pt) out = chunk_loop ?r2 tiles pt (out @ [?c])"
    using t0 by (simp add: output_thickness_window Let_def)
  have cp: "c_pages ?c = map (\<lambda>k. zmin r + int k) [0..<nat t]"
    by (simp add: fuse_chunk_def output_thickness_window)
  have cz: "c_zmax ?c - c_zmin ?c = t" by (simp add: fuse_chunk_def)
  have "pages_written (?c # cs) = map (\<lambda>k. zmin r + int k) [0..<nat (t + sum_list pt)]"
    using pg cp upt_add_split_map[OF t0 s0, of "zmin r"] by (simp add: pages_written_def)
  then show ?case
    using step loop zr fr th ln cz cp t0
    by (intro exI[of _ r'] exI[of _ "?c # cs"]) (simp add: add.assoc)
qed


lemma partial_thickness_value:
  "n \<noteq> 0 \<Longrightarrow>
   partial_thickness T n
     = Inr (replicate (nat (T div n)) n @ (if T mod n = 0 then [] else [T mod n]))"
  by (simp add: partial_thickness_def Let_def)

lemma partial_thickness_sum:
  assumes "0 \<le> T" and "1 \<le> n"
  shows "sum_list (replicate (nat (T div n)) n @ (if T mod n = 0 then [] else [T mod n])) = T"
proof -
  have d: "0 \<le> T div n" using assms by (simp add: pos_imp_zdiv_nonneg_iff)
  have "sum_list (replicate (nat (T div n)) n) = (T div n) * n"
    using d by (simp add: sum_list_replicate)
  moreover have "(T div n) * n + T mod n = T" by simp
  ultimately show ?thesis by (cases "T mod n = 0") simp_all
qed

text \<open>
  Claim C6.  For a total output thickness \<open>T \<ge> 1\<close> and a budget of \<open>n \<ge> 1\<close> frames
  per chunk, the thickness list is \<open>T div n\<close> chunks of \<open>n\<close> frames followed by one
  chunk of \<open>T mod n\<close> frames when that is not zero; \<open>run\<close> returns, its chunks have
  these thicknesses and cover windows of the same lengths, the thicknesses sum to \<open>T\<close>,
  and the pages appended to the output are the frames \<open>zmin, zmin + 1, ..., zmin + T - 1\<close>
  in this order, each once.
\<close>

theorem chunk_partition:
  assumes "1 \<le> T" and "1 \<le> n" and "output_thickness r = T"
  shows "partial_thickness T n
           = Inr (replicate (nat (T div n)) n @ (if T mod n = 0 then [] else [T mod n]))
       \<and> (\<exists>r' cs. run r tiles n = Inr (r', cs)
             \<and> map (\<lambda>c. int (length (c_pages c))) cs
                 = replicate (nat (T div n)) n @ (if T mod n = 0 then [] else [T mod n])
             \<and> map (\<lambda>c. c_zmax c - c_zmin c) cs = map (\<lambda>c. int (length (c_pages c))) cs
             \<and> sum_list (map (\<lambda>c. int (length (c_pages c))) cs) = T
             \<and> pages_written cs = map (\<lambda>k. zmin r + int k) [0..<nat T]
             \<and> zmin r' = zmin r + T)"
proof -
  let ?pt = "replicate (nat (T div n)) n @ (if T mod n = 0 then [] else [T mod n])"
  have n0: "n \<noteq> 0" using assms(2) by simp
  have pt: "partial_thickness T n = Inr ?pt" by (rule partial_thickness_value[OF n0])
  have m: "0 \<le> T mod n" using assms(2) by simp
  have nonneg: "\<forall>t\<in>set ?pt. 0 \<le> t" using assms(2) m by auto
  have sum: "sum_list ?pt = T" using partial_thickness_sum[of T n] assms by simp
  obtain r' cs where
    loop: "chunk_loop r tiles ?pt [] = Inr (r', [] @ cs)"
    and zr: "zmin r' = zmin r + sum_list ?pt"
    and th: "map (\<lambda>c. c_zmax c - c_zmin c) cs = ?pt"
    and ln: "map (\<lambda>c. int (length (c_pages c))) cs = ?pt"
    and pg: "pages_written cs = map (\<lambda>k. zmin r + int k) [0..<nat (sum_list ?pt)]"
    using chunk_loop_pages[OF nonneg, of r tiles "[]"] by blast
  have "run r tiles n = Inr (r', cs)"
    using loop pt assms(3) by (simp add: run_def)
  then show ?thesis using pt zr th ln pg sum
    by (intro conjI exI[of _ r'] exI[of _ cs]) simp_all
qed

text \<open>The instance of the specification: a budget of 3 frames and thickness 7.\<close>

theorem chunk_partition_witness:
  "partial_thickness 7 3 = Inr [3, 3, 1]
   \<and> (\<exists>r' cs. run \<lparr>zmin = 0, zmax = None, full_thickness = 7\<rparr> [] 3 = Inr (r', cs)
         \<and> map (\<lambda>c. int (length (c_pages c))) cs = [3, 3, 1]
         \<and> sum_list (map (\<lambda>c. int (length (c_pages c))) cs) = 7
         \<and> pages_written cs = [0, 1, 2, 3, 4, 5, 6]
         \<and> zmin r' = 7)"
proof -
  have T: "(1::int) \<le> 7" and n: "(1::int) \<le> 3" by simp_all
  have o: "output_thickness \<lparr>zmin = 0, zmax = None, full_thickness = 7\<rparr> = 7"
    by (simp add: output_thickness_def)
  have r: "replicate (nat (7 div 3)) (3::int) @ (if (7::int) mod 3 = 0 then [] else [7 mod 3]) = [3, 3, 1]"
    by (simp add: numeral_2_eq_2)
  have u: "map (\<lambda>k. zmin \<lparr>zmin = 0, zmax = None, full_thickness = 7\<rparr> + int k) [0..<nat 7]
             = [0, 1, 2, 3, 4, 5, 6]"
    by (simp add: upt_rec)
  from chunk_partition[OF T n o, of "[]"] obtain r' cs where
    a: "run \<lparr>zmin = 0, zmax = None, full_thickness = 7\<rparr> [] 3 = Inr (r', cs)"
    and b: "map (\<lambda>c. int (length (c_pages c))) cs = [3, 3, 1]"
    and c: "sum_list (map (\<lambda>c. int (length (c_pages c))) cs) = 7"
    and d: "pages_written cs = [0, 1, 2, 3, 4, 5, 6]"
    and e: "zmin r' = 7"
    unfolding r u by auto
  have p: "partial_thickness 7 3 = Inr [3, 3, 1]"
    using chunk_partition[OF T n o, of "[]"] unfolding r by simp
  show ?thesis
    by (rule conjI[OF p]) (intro exI[of _ r'] exI[of _ cs] conjI a b c d e)
qed

end
